theory Spec2Isabelle
  imports Complex_Main
begin

section \<open>Activity checks of autosuspend: a shallow embedding of \<open>checks/activity.py\<close>\<close>

text \<open>
  The development embeds the classes \<open>NetworkBandwidth\<close>, \<open>XIdleTime\<close> and
  \<open>LogindSessionsIdle\<close> of \<open>src/autosuspend/checks/activity.py\<close>. A \<open>check\<close>
  method returns a reason string (active) or \<open>None\<close> (inactive), or raises; the model returns
  \<open>error + string option\<close>. What a method reads from the operating system and from the
  Python library (the process table, the X sockets, the logind sessions, the output of a
  subprocess, the clock, the configuration parser, \<open>re.compile\<close>) is an argument of the
  model, and a call that can raise gives a value of \<open>error + 'a\<close>, so that an exception the
  code does not catch is a result of the model too.
\<close>

subsection \<open>Exceptions\<close>

text \<open>
  The three exception classes of the package (\<open>ConfigurationError\<close>,
  \<open>TemporaryCheckError\<close>, \<open>SevereCheckError\<close>) and the Python exceptions that the
  modelled code raises or lets through. \<open>KeyError\<close> carries the missing key.
  \<open>FileNotFoundError\<close> is kept apart from the other operating system errors, for which
  \<open>OSError\<close> stands. \<open>ReError\<close> is \<open>re.error\<close>, and
  \<open>InterpolationSyntaxError\<close> is the error of \<open>configparser\<close> for a value such as
  \<open>50%\<close>; neither is a \<open>ValueError\<close>.
\<close>

datatype error =
    ConfigurationError
  | TemporaryCheckError
  | SevereCheckError
  | KeyError string
  | ValueError
  | ReError
  | AttributeError
  | ZeroDivisionError
  | CalledProcessError
  | FileNotFoundError
  | OSError
  | OverflowError
  | InterpolationSyntaxError

definition is_key_error :: "error \<Rightarrow> bool" where
  "is_key_error e = (case e of KeyError k \<Rightarrow> True | _ \<Rightarrow> False)"

subsection \<open>Dictionaries\<close>

text \<open>
  A dictionary lookup \<open>d[k]\<close>: a missing key raises \<open>KeyError\<close>.
\<close>

type_synonym properties = "string \<rightharpoonup> string"

definition getitem :: "properties \<Rightarrow> string \<Rightarrow> error + string" where
  "getitem d k = (case d k of None \<Rightarrow> Inl (KeyError k) | Some v \<Rightarrow> Inr v)"

subsection \<open>Compiled regular expressions\<close>

text \<open>
  A compiled pattern, the object that \<open>re.compile\<close> returns, is modelled by the answers of
  its two methods on every text: \<open>re_match\<close> tells whether \<open>Pattern.match\<close> finds a match at
  the beginning of the text, \<open>re_fullmatch\<close> whether \<open>Pattern.fullmatch\<close> matches the
  whole text. Nothing is assumed about how the two are related, so a pattern with anchors,
  word boundaries or lookaround is a value of this type as well.
\<close>

record pattern =
  re_match :: "string \<Rightarrow> bool"
  re_fullmatch :: "string \<Rightarrow> bool"

text \<open>
  The patterns of the examples are written in a small language of regular expressions without
  anchors: nothing (\<open>RNever\<close>, as the default \<open>a^\<close> of the configuration matches nothing),
  the empty text, a character, sequence, alternative and repetition. For these, a match at
  the beginning of a text is a full match of one of its prefixes; both are computed with
  derivatives.
\<close>

datatype regex =
    RNever
  | REmpty
  | RChar char
  | RSeq regex regex
  | RAlt regex regex
  | RStar regex

fun nullable :: "regex \<Rightarrow> bool" where
  "nullable RNever = False"
| "nullable REmpty = True"
| "nullable (RChar c) = False"
| "nullable (RSeq r s) = (nullable r \<and> nullable s)"
| "nullable (RAlt r s) = (nullable r \<or> nullable s)"
| "nullable (RStar r) = True"

fun deriv :: "char \<Rightarrow> regex \<Rightarrow> regex" where
  "deriv c RNever = RNever"
| "deriv c REmpty = RNever"
| "deriv c (RChar d) = (if c = d then REmpty else RNever)"
| "deriv c (RSeq r s) =
     (if nullable r then RAlt (RSeq (deriv c r) s) (deriv c s) else RSeq (deriv c r) s)"
| "deriv c (RAlt r s) = RAlt (deriv c r) (deriv c s)"
| "deriv c (RStar r) = RSeq (deriv c r) (RStar r)"

fun regex_fullmatch :: "regex \<Rightarrow> string \<Rightarrow> bool" where
  "regex_fullmatch r [] = nullable r"
| "regex_fullmatch r (c # cs) = regex_fullmatch (deriv c r) cs"

fun regex_match :: "regex \<Rightarrow> string \<Rightarrow> bool" where
  "regex_match r [] = nullable r"
| "regex_match r (c # cs) = (nullable r \<or> regex_match (deriv c r) cs)"

definition compiled :: "regex \<Rightarrow> pattern" where
  "compiled r = \<lparr>re_match = regex_match r, re_fullmatch = regex_fullmatch r\<rparr>"

text \<open>The expression that matches exactly the given text.\<close>

fun literal :: "string \<Rightarrow> regex" where
  "literal [] = REmpty"
| "literal (c # cs) = RSeq (RChar c) (literal cs)"

subsection \<open>What the checks read from the system and from the library\<close>

text \<open>
  A process of \<open>psutil.process_iter()\<close> answers \<open>username()\<close> and \<open>name()\<close>, or raises
  one of \<open>NoSuchProcess\<close>, \<open>ZombieProcess\<close>, \<open>AccessDenied\<close> (\<open>None\<close>).
  The code reads the process table once for each session; the model takes one table for the
  evaluation.

  \<^item> \<open>stat_uid\<close> is \<open>os.stat(sock).st_uid\<close> and \<open>getpwuid_name\<close> is
    \<open>pwd.getpwuid(uid).pw_name\<close>; each gives its result or the exception that it raises.
  \<^item> \<open>check_output\<close> is the call of \<open>sudo -u user xprintidle\<close> with \<open>DISPLAY\<close> set to
    the display: it gives the captured output or the exception that the call raises
    (\<open>CalledProcessError\<close> for a non-zero exit status, an \<open>OSError\<close> when the command
    cannot be started).
  \<^item> \<open>re_compile\<close> is \<open>re.compile\<close>: the compiled pattern, or the exception that it
    raises (\<open>re.error\<close> for a malformed pattern, \<open>OverflowError\<close> for a repetition count
    that is too large).
  \<^item> \<open>list_logind_sessions\<close> is the result of \<open>list_logind_sessions()\<close>, or the
    exception that it raises.
  \<^item> \<open>int_unmodelled\<close> is \<open>int(text)\<close> for a text with a character outside ASCII or
    with more than 4300 characters (\<open>None\<close> for \<open>ValueError\<close>); on the other texts
    \<open>int\<close> is defined below.
  \<^item> Floats are modelled by rationals (no rounding, no infinities, no NaN); \<open>py_float\<close> is
    \<open>float(text)\<close>, \<open>None\<close> for \<open>ValueError\<close>, and \<open>format_float\<close> is the text that
    \<open>str.format\<close> writes for a float.
\<close>

record proc =
  proc_username :: "string option"
  proc_name :: "string option"

record env =
  glob_sockets :: "string list"
  stat_uid :: "string \<Rightarrow> error + nat"
  getpwuid_name :: "nat \<Rightarrow> error + string"
  list_logind_sessions :: "error + (string \<times> properties) list"
  process_iter :: "proc list"
  check_output :: "int \<Rightarrow> string \<Rightarrow> error + string"
  re_compile :: "string \<Rightarrow> error + pattern"
  int_unmodelled :: "string \<Rightarrow> int option"
  py_float :: "string \<Rightarrow> rat option"
  format_float :: "rat \<Rightarrow> string"

subsection \<open>Python built-ins used by the checks\<close>

text \<open>
  \<open>int(s)\<close> on ASCII text: whitespace (tab, line feed, vertical tab, form feed, carriage
  return, space) is dropped at both ends, an optional sign follows, then decimal digits, where
  single underscores may stand between two digits. Anything else is a \<open>ValueError\<close>, here
  \<open>None\<close>. For a text with a character outside ASCII the answer is the environment's, and
  so it is for a text of more than 4300 characters, where recent versions of Python refuse
  the conversion of more than 4300 digits.
\<close>

definition is_space :: "char \<Rightarrow> bool" where
  "is_space c = (of_char c \<in> {9, 10, 11, 12, 13, 32 :: nat})"

definition is_digit :: "char \<Rightarrow> bool" where
  "is_digit c = (48 \<le> (of_char c :: nat) \<and> (of_char c :: nat) \<le> 57)"

definition digit_val :: "char \<Rightarrow> nat" where
  "digit_val c = of_char c - 48"

definition strip_space :: "string \<Rightarrow> string" where
  "strip_space s = rev (dropWhile is_space (rev (dropWhile is_space s)))"

fun py_digits :: "nat \<Rightarrow> string \<Rightarrow> nat option" where
  "py_digits acc [] = Some acc"
| "py_digits acc [c] = (if is_digit c then Some (10 * acc + digit_val c) else None)"
| "py_digits acc (c # d # cs) =
     (if is_digit c then py_digits (10 * acc + digit_val c) (d # cs)
      else if c = CHR ''_'' \<and> is_digit d then py_digits acc (d # cs)
      else None)"

definition py_nat :: "string \<Rightarrow> nat option" where
  "py_nat s = (case s of [] \<Rightarrow> None
               | c # cs \<Rightarrow> if is_digit c then py_digits (digit_val c) cs else None)"

definition ascii_int :: "string \<Rightarrow> int option" where
  "ascii_int s =
     (case strip_space s of
        [] \<Rightarrow> None
      | c # cs \<Rightarrow>
          if c = CHR ''-'' then map_option (\<lambda>n. - int n) (py_nat cs)
          else if c = CHR ''+'' then map_option int (py_nat cs)
          else map_option int (py_nat (c # cs)))"

definition is_ascii :: "char \<Rightarrow> bool" where
  "is_ascii c = ((of_char c :: nat) < 128)"

definition py_int :: "env \<Rightarrow> string \<Rightarrow> int option" where
  "py_int env s =
     (if list_all is_ascii s \<and> length s \<le> 4300 then ascii_int s else int_unmodelled env s)"

text \<open>\<open>str(n)\<close> for an integer: its decimal digits, with a minus sign when negative.\<close>

definition digit_char :: "nat \<Rightarrow> char" where
  "digit_char n = ''0123456789'' ! n"

fun str_nat :: "nat \<Rightarrow> string" where
  "str_nat n =
     (if n < 10 then [digit_char n]
      else str_nat (n div 10) @ [digit_char (n mod 10)])"

definition str_int :: "int \<Rightarrow> string" where
  "str_int i = (if i < 0 then CHR ''-'' # str_nat (nat (- i)) else str_nat (nat i))"

subsection \<open>\<open>LogindSessionsIdle\<close>\<close>

text \<open>
  The probe holds the two allow-lists. \<open>check\<close> walks the sessions that
  \<open>list_logind_sessions()\<close> returned, pairs of a session identifier and a property
  dictionary. The arguments of \<open>logger.debug\<close> are evaluated before the call, so the
  lookup \<open>properties['type']\<close> in the branch of a wrong type is part of the model.
\<close>

record logind_sessions_idle =
  types :: "string list"
  states :: "string list"

fun logind_check ::
  "logind_sessions_idle \<Rightarrow> (string \<times> properties) list \<Rightarrow> error + string option" where
  "logind_check p [] = Inr None"
| "logind_check p ((session_id, props) # rest) =
     (case getitem props ''Type'' of
        Inl e \<Rightarrow> Inl e
      | Inr ty \<Rightarrow>
          if ty \<notin> set (types p) then
            (case getitem props ''type'' of
               Inl e \<Rightarrow> Inl e
             | Inr _ \<Rightarrow> logind_check p rest)
          else
            (case getitem props ''State'' of
               Inl e \<Rightarrow> Inl e
             | Inr st \<Rightarrow>
                 if st \<notin> set (states p) then
                   (case getitem props ''State'' of
                      Inl e \<Rightarrow> Inl e
                    | Inr _ \<Rightarrow> logind_check p rest)
                 else
                   (case getitem props ''IdleHint'' of
                      Inl e \<Rightarrow> Inl e
                    | Inr hint \<Rightarrow>
                        if hint = ''no''
                        then Inr (Some (''Login session '' @ session_id @ '' is not idle''))
                        else logind_check p rest)))"

subsection \<open>\<open>XIdleTime\<close>: construction\<close>

text \<open>
  \<open>_provide_sessions\<close> holds one of the two bound methods; the probe records which.
  A configuration section maps an option to what reading it gives: its text, or the
  exception that \<open>configparser\<close> raises for it (\<open>InterpolationSyntaxError\<close> for the value
  \<open>50%\<close>). \<open>get\<close> and \<open>getint\<close> give the fallback for an option that is absent;
  \<open>getint\<close> converts the text with \<open>int\<close>.
\<close>

datatype discovery = Sockets | Logind

record xidletime =
  timeout :: int
  provide_sessions :: discovery
  ignore_process_re :: pattern
  ignore_users_re :: pattern







subsection \<open>\<open>XIdleTime\<close>: session discovery\<close>

text \<open>
  The socket scan: \<open>int(sock[len('/tmp/.X11-unix/X'):])\<close>, where a \<open>ValueError\<close> skips the
  socket, then \<open>pwd.getpwuid(os.stat(sock).st_uid).pw_name\<close>, where \<open>FileNotFoundError\<close> and
  \<open>KeyError\<close> skip the socket and any other exception leaves the method.
\<close>

definition socket_owner :: "env \<Rightarrow> string \<Rightarrow> error + string" where
  "socket_owner env sock =
     (case stat_uid env sock of Inl e \<Rightarrow> Inl e | Inr uid \<Rightarrow> getpwuid_name env uid)"

fun list_sessions_sockets :: "env \<Rightarrow> string list \<Rightarrow> error + (int \<times> string) list" where
  "list_sessions_sockets env [] = Inr []"
| "list_sessions_sockets env (sock # rest) =
     (case py_int env (drop (length ''/tmp/.X11-unix/X'') sock) of
        None \<Rightarrow> list_sessions_sockets env rest
      | Some display \<Rightarrow>
          (case socket_owner env sock of
             Inl e \<Rightarrow>
               if e = FileNotFoundError \<or> is_key_error e then list_sessions_sockets env rest
               else Inl e
           | Inr user \<Rightarrow>
               (case list_sessions_sockets env rest of
                  Inl e \<Rightarrow> Inl e
                | Inr results \<Rightarrow> Inr ((display, user) # results))))"

text \<open>\<open>s.replace(':', '')\<close> removes every colon of \<open>s\<close>.\<close>

definition replace_colon :: "string \<Rightarrow> string" where
  "replace_colon s = filter (\<lambda>c. c \<noteq> CHR '':'') s"

fun list_sessions_logind :: "env \<Rightarrow> (string \<times> properties) list \<Rightarrow> (int \<times> string) list" where
  "list_sessions_logind env [] = []"
| "list_sessions_logind env ((session_id, props) # rest) =
     (case props ''Name'' of
        None \<Rightarrow> list_sessions_logind env rest
      | Some user \<Rightarrow>
          (case props ''Display'' of
             None \<Rightarrow> list_sessions_logind env rest
           | Some d \<Rightarrow>
               (case py_int env (replace_colon d) of
                  None \<Rightarrow> list_sessions_logind env rest
                | Some display \<Rightarrow> (display, user) # list_sessions_logind env rest)))"

text \<open>
  The specification's wording of the display parsing, for comparison with the code: a leading
  colon is stripped, and the rest is converted to an integer.
\<close>

definition spec_strip_leading_colon :: "string \<Rightarrow> string" where
  "spec_strip_leading_colon s = (case s of [] \<Rightarrow> [] | c # cs \<Rightarrow> if c = CHR '':'' then cs else c # cs)"

definition spec_parse_display :: "env \<Rightarrow> string \<Rightarrow> int option" where
  "spec_parse_display env s = py_int env (spec_strip_leading_colon s)"

definition provided_sessions :: "xidletime \<Rightarrow> env \<Rightarrow> error + (int \<times> string) list" where
  "provided_sessions p env =
     (case provide_sessions p of
        Sockets \<Rightarrow> list_sessions_sockets env (glob_sockets env)
      | Logind \<Rightarrow>
          (case list_logind_sessions env of
             Inl e \<Rightarrow> Inl e
           | Inr sessions \<Rightarrow> Inr (list_sessions_logind env sessions)))"

subsection \<open>\<open>XIdleTime\<close>: exclusion by process\<close>

text \<open>
  \<open>_is_skip_process_running\<close> first collects the names of the processes of the user; a
  process that raises while it is asked is ignored. The collected names are strings. The
  second loop tests each name against the pattern and, on a match, evaluates
  \<open>process.name()\<close> and \<open>process.pid\<close> for the debug message before it returns
  \<open>True\<close>: \<open>process\<close> is a string there, and a string has no attribute \<open>name\<close>.
\<close>

fun collect_user_processes :: "string \<Rightarrow> proc list \<Rightarrow> string list" where
  "collect_user_processes user [] = []"
| "collect_user_processes user (process # rest) =
     (case proc_username process of
        None \<Rightarrow> collect_user_processes user rest
      | Some u \<Rightarrow>
          if u = user then
            (case proc_name process of
               None \<Rightarrow> collect_user_processes user rest
             | Some n \<Rightarrow> n # collect_user_processes user rest)
          else collect_user_processes user rest)"

definition str_name_call :: "string \<Rightarrow> error + string" where
  "str_name_call process = Inl AttributeError"

fun match_user_processes :: "pattern \<Rightarrow> string list \<Rightarrow> error + bool" where
  "match_user_processes re [] = Inr False"
| "match_user_processes re (process # rest) =
     (if re_match re process then
        (case str_name_call process of Inl e \<Rightarrow> Inl e | Inr _ \<Rightarrow> Inr True)
      else match_user_processes re rest)"

definition is_skip_process_running :: "xidletime \<Rightarrow> env \<Rightarrow> string \<Rightarrow> error + bool" where
  "is_skip_process_running p env user =
     match_user_processes (ignore_process_re p) (collect_user_processes user (process_iter env))"

subsection \<open>\<open>XIdleTime\<close>: idle time and evaluation\<close>

text \<open>\<open>bytes.strip()\<close> drops ASCII whitespace at both ends.\<close>

definition is_bytes_space :: "char \<Rightarrow> bool" where
  "is_bytes_space c = (of_char c \<in> {9, 10, 11, 12, 13, 32 :: nat})"

definition bytes_strip :: "string \<Rightarrow> string" where
  "bytes_strip s = rev (dropWhile is_bytes_space (rev (dropWhile is_bytes_space s)))"

text \<open>
  The \<open>try\<close> block of \<open>check\<close>: the helper's output is converted by \<open>float\<close> and divided
  by 1000; \<open>CalledProcessError\<close> and \<open>ValueError\<close> are caught and raised again as
  \<open>TemporaryCheckError\<close>, any other exception passes.
\<close>

definition idle_time :: "env \<Rightarrow> int \<Rightarrow> string \<Rightarrow> error + rat" where
  "idle_time env display user =
     (case
        (case check_output env display user of
           Inl e \<Rightarrow> Inl e
         | Inr out \<Rightarrow>
             (case py_float env (bytes_strip out) of
                None \<Rightarrow> Inl ValueError
              | Some ms \<Rightarrow> Inr (ms / 1000)))
      of
        Inl e \<Rightarrow>
          if e = CalledProcessError \<or> e = ValueError then Inl TemporaryCheckError else Inl e
      | Inr t \<Rightarrow> Inr t)"

definition active_reason :: "env \<Rightarrow> int \<Rightarrow> string \<Rightarrow> rat \<Rightarrow> int \<Rightarrow> string" where
  "active_reason env display user t threshold =
     ''X session '' @ str_int display @ '' of user '' @ user @
     '' has idle time '' @ format_float env t @ '' < threshold '' @ str_int threshold"

text \<open>
  What an evaluation does besides returning: the log lines that tell which sessions were
  looked at and which were skipped for their user, and the calls of the helper.
\<close>

datatype event =
    LogChecking int string
  | LogSkipUser string
  | CallHelper int string

definition emit :: "event list \<Rightarrow> 'a \<times> event list \<Rightarrow> 'a \<times> event list" where
  "emit evs r = (fst r, evs @ snd r)"

fun check_sessions ::
  "xidletime \<Rightarrow> env \<Rightarrow> (int \<times> string) list \<Rightarrow> (error + string option) \<times> event list" where
  "check_sessions p env [] = (Inr None, [])"
| "check_sessions p env ((display, user) # rest) =
     (if re_match (ignore_users_re p) user then
        emit [LogChecking display user, LogSkipUser user] (check_sessions p env rest)
      else
        (case is_skip_process_running p env user of
           Inl e \<Rightarrow> (Inl e, [LogChecking display user])
         | Inr skip \<Rightarrow>
             if skip then emit [LogChecking display user] (check_sessions p env rest)
             else
               (case idle_time env display user of
                  Inl e \<Rightarrow> (Inl e, [LogChecking display user, CallHelper display user])
                | Inr t \<Rightarrow>
                    if t < of_int (timeout p) then
                      (Inr (Some (active_reason env display user t (timeout p))),
                       [LogChecking display user, CallHelper display user])
                    else
                      emit [LogChecking display user, CallHelper display user]
                        (check_sessions p env rest))))"

definition xidletime_check :: "xidletime \<Rightarrow> env \<Rightarrow> (error + string option) \<times> event list" where
  "xidletime_check p env =
     (case provided_sessions p env of
        Inl e \<Rightarrow> (Inl e, [])
      | Inr sessions \<Rightarrow> check_sessions p env sessions)"

subsection \<open>\<open>NetworkBandwidth\<close>\<close>

text \<open>
  The probe keeps the counters and the time read in the constructor. \<open>check\<close> reads new
  counters and a new time, which are arguments here, and returns the probe as it leaves it:
  the method assigns to no attribute.
\<close>

record snetio =
  bytes_sent :: int
  bytes_recv :: int

record network_bandwidth =
  interfaces :: "string list"
  threshold_send :: rat
  threshold_receive :: rat
  previous_values :: "string \<rightharpoonup> snetio"
  previous_time :: rat

definition network_bandwidth_init ::
  "string list \<Rightarrow> rat \<Rightarrow> rat \<Rightarrow> (string \<rightharpoonup> snetio) \<Rightarrow> rat \<Rightarrow> network_bandwidth" where
  "network_bandwidth_init ifs ts tr counters now =
     \<lparr>interfaces = ifs, threshold_send = ts, threshold_receive = tr,
      previous_values = counters, previous_time = now\<rparr>"

fun check_interfaces ::
  "(rat \<Rightarrow> string) \<Rightarrow> network_bandwidth \<Rightarrow> (string \<rightharpoonup> snetio) \<Rightarrow> rat \<Rightarrow> string list \<Rightarrow>
   error + string option" where
  "check_interfaces fmt self new_values new_time [] = Inr None"
| "check_interfaces fmt self new_values new_time (interface # rest) =
     (case new_values interface of
        None \<Rightarrow> Inl TemporaryCheckError
      | Some new \<Rightarrow>
          (case previous_values self interface of
             None \<Rightarrow> Inl TemporaryCheckError
           | Some old \<Rightarrow>
               if new_time - previous_time self = 0 then Inl ZeroDivisionError
               else
                 let rate_send =
                       of_int (bytes_sent new - bytes_sent old) / (new_time - previous_time self);
                     rate_receive =
                       of_int (bytes_recv new - bytes_recv old) / (new_time - previous_time self)
                 in
                   if rate_send > threshold_send self then
                     Inr (Some (''Interface '' @ interface @ '' sending rate '' @ fmt rate_send @
                                '' byte/s higher than threshold '' @ fmt (threshold_send self)))
                   else if rate_receive > threshold_receive self then
                     Inr (Some (''Interface '' @ interface @ '' receive rate '' @ fmt rate_receive @
                                '' byte/s higher than threshold '' @ fmt (threshold_receive self)))
                   else check_interfaces fmt self new_values new_time rest))"

definition network_bandwidth_check ::
  "(rat \<Rightarrow> string) \<Rightarrow> network_bandwidth \<Rightarrow> (string \<rightharpoonup> snetio) \<Rightarrow> rat \<Rightarrow>
   (error + string option) \<times> network_bandwidth" where
  "network_bandwidth_check fmt self new_values new_time =
     (check_interfaces fmt self new_values new_time (interfaces self), self)"

subsection \<open>Environments for the examples\<close>

text \<open>
  The examples run the model in a small environment: no sockets and no logind sessions, a
  given process table and a given helper. There \<open>float\<close> is applied to integer literals only
  and floats with an integral value are written, as Python writes \<open>120.0\<close>; \<open>re.compile\<close>
  is applied to the default pattern \<open>a^\<close>, to plain words and to the malformed pattern
  \<open>(\<close> only; no file is found and no uid is known.
\<close>

definition example_float :: "string \<Rightarrow> rat option" where
  "example_float s = map_option of_int (ascii_int s)"

definition example_format :: "rat \<Rightarrow> string" where
  "example_format t = str_int \<lfloor>t\<rfloor> @ ''.0''"

definition example_compile :: "string \<Rightarrow> error + pattern" where
  "example_compile s =
     (if s = ''a^'' then Inr (compiled RNever)
      else if s = ''('' then Inl ReError
      else Inr (compiled (literal s)))"

definition example_env :: "proc list \<Rightarrow> (int \<Rightarrow> string \<Rightarrow> error + string) \<Rightarrow> env" where
  "example_env procs helper =
     \<lparr>glob_sockets = [], stat_uid = (\<lambda>s. Inl FileNotFoundError),
      getpwuid_name = (\<lambda>u. Inl (KeyError ''uid'')),
      list_logind_sessions = Inr [], process_iter = procs, check_output = helper,
      re_compile = example_compile, int_unmodelled = (\<lambda>s. None),
      py_float = example_float, format_float = example_format\<rparr>"

definition example_probe :: "int \<Rightarrow> regex \<Rightarrow> regex \<Rightarrow> xidletime" where
  "example_probe t process_re users_re =
     \<lparr>timeout = t, provide_sessions = Sockets,
      ignore_process_re = compiled process_re, ignore_users_re = compiled users_re\<rparr>"

definition example_helper ::
  "(string \<times> (error + string)) list \<Rightarrow> int \<Rightarrow> string \<Rightarrow> error + string" where
  "example_helper table display user =
     (case map_of table user of None \<Rightarrow> Inl CalledProcessError | Some r \<Rightarrow> r)"

section \<open>Properties\<close>

subsection \<open>Regular expressions without anchors\<close>

lemma regex_match_iff_prefix: "regex_match r s \<longleftrightarrow> (\<exists>n. regex_fullmatch r (take n s))"
proof (induction s arbitrary: r)
  case Nil
  then show ?case by simp
next
  case (Cons c cs)
  show ?case
  proof
    assume "regex_match r (c # cs)"
    then consider "nullable r" | "regex_match (deriv c r) cs" by auto
    then show "\<exists>n. regex_fullmatch r (take n (c # cs))"
    proof cases
      case 1
      then have "regex_fullmatch r (take 0 (c # cs))" by simp
      then show ?thesis by blast
    next
      case 2
      then obtain n where "regex_fullmatch (deriv c r) (take n cs)"
        using Cons.IH by blast
      then have "regex_fullmatch r (take (Suc n) (c # cs))" by simp
      then show ?thesis by blast
    qed
  next
    assume "\<exists>n. regex_fullmatch r (take n (c # cs))"
    then obtain n where n: "regex_fullmatch r (take n (c # cs))" by blast
    show "regex_match r (c # cs)"
    proof (cases n)
      case 0
      with n show ?thesis by simp
    next
      case (Suc m)
      with n have "regex_fullmatch (deriv c r) (take m cs)" by simp
      then have "regex_match (deriv c r) cs" using Cons.IH by blast
      then show ?thesis by simp
    qed
  qed
qed

lemma regex_fullmatch_imp_match: "regex_fullmatch r s \<Longrightarrow> regex_match r s"
proof -
  assume "regex_fullmatch r s"
  then have "regex_fullmatch r (take (length s) s)" by simp
  then show ?thesis unfolding regex_match_iff_prefix by blast
qed

lemma regex_match_RNever: "\<not> regex_match RNever s"
  by (induction s) simp_all

subsection \<open>\<open>LogindSessionsIdle.check\<close>\<close>

lemma logind_check_append:
  "logind_check p (pre @ post) =
     (case logind_check p pre of Inr None \<Rightarrow> logind_check p post | r \<Rightarrow> r)"
proof (induction pre)
  case Nil
  then show ?case by simp
next
  case (Cons s pre)
  obtain session_id props where s: "s = (session_id, props)" by (cases s)
  show ?case
    using Cons.IH
    by (simp add: s split: sum.splits option.splits)
qed

text \<open>
  C9 (the code departs from the claim). The claim: a session whose \<open>Type\<close> is outside the
  allow-list is passed over without its \<open>IdleHint\<close> being read, and the result is inactive
  unless an allowed session has \<open>IdleHint\<close> \<open>no\<close>. With the default allow-lists and one
  session of type \<open>mir\<close>, whose dictionary holds the logind keys \<open>Type\<close>, \<open>State\<close> and
  \<open>IdleHint\<close>, the lookup of the lowercase key \<open>type\<close> for the debug message raises
  \<open>KeyError\<close>: the evaluation produces no result.
\<close>

theorem logind_check_wrong_type_raises:
  "logind_check \<lparr>types = [''tty'', ''x11'', ''wayland''], states = [''active'', ''online'']\<rparr>
     [(''c1'', [''Type'' \<mapsto> ''mir'', ''State'' \<mapsto> ''active'', ''IdleHint'' \<mapsto> ''no''])]
   = Inl (KeyError ''type'')"
  by (simp add: getitem_def)

text \<open>
  C10. \<open>LogindSessionsIdle.check\<close> reads \<open>Type\<close>, then \<open>type\<close> when the type is not
  allowed, else \<open>State\<close>, and \<open>IdleHint\<close> when type and state are allowed, none of them
  guarded. When the loop reaches a session (the sessions before it gave no result) whose
  dictionary lacks the key that is read on its path, the evaluation raises \<open>KeyError\<close> for
  that key; in particular a session of a type outside the allow-list raises \<open>KeyError\<close> for
  \<open>type\<close> when its dictionary has no such key. \<open>KeyError\<close> is none of
  \<open>ConfigurationError\<close>, \<open>TemporaryCheckError\<close>, \<open>SevereCheckError\<close>.
\<close>

theorem logind_check_missing_key:
  assumes reach: "logind_check p pre = Inr None"
  shows "(props ''Type'' = None \<longrightarrow>
            logind_check p (pre @ (sid, props) # rest) = Inl (KeyError ''Type''))
       \<and> (\<forall>ty. props ''Type'' = Some ty \<and> ty \<notin> set (types p) \<and> props ''type'' = None \<longrightarrow>
            logind_check p (pre @ (sid, props) # rest) = Inl (KeyError ''type''))
       \<and> (\<forall>ty. props ''Type'' = Some ty \<and> ty \<in> set (types p) \<and> props ''State'' = None \<longrightarrow>
            logind_check p (pre @ (sid, props) # rest) = Inl (KeyError ''State''))
       \<and> (\<forall>ty st. props ''Type'' = Some ty \<and> ty \<in> set (types p) \<and>
              props ''State'' = Some st \<and> st \<in> set (states p) \<and> props ''IdleHint'' = None \<longrightarrow>
            logind_check p (pre @ (sid, props) # rest) = Inl (KeyError ''IdleHint''))
       \<and> (\<forall>k. KeyError k \<notin> {ConfigurationError, TemporaryCheckError, SevereCheckError})"
proof -
  have step: "logind_check p (pre @ (sid, props) # rest) = logind_check p ((sid, props) # rest)"
    by (simp add: logind_check_append reach)
  show ?thesis
    unfolding step by (simp add: getitem_def)
qed

theorem logind_check_missing_key_witness:
  "logind_check \<lparr>types = [''tty'', ''x11''], states = [''active'']\<rparr>
     [(''1'', [''Type'' \<mapsto> ''tty'', ''State'' \<mapsto> ''active'', ''IdleHint'' \<mapsto> ''yes''])] = Inr None
   \<and> logind_check \<lparr>types = [''tty'', ''x11''], states = [''active'']\<rparr>
     ([(''1'', [''Type'' \<mapsto> ''tty'', ''State'' \<mapsto> ''active'', ''IdleHint'' \<mapsto> ''yes''])]
       @ [(''2'', [''State'' \<mapsto> ''active'', ''IdleHint'' \<mapsto> ''no''])])
     = Inl (KeyError ''Type'')
   \<and> logind_check \<lparr>types = [''tty'', ''x11''], states = [''active'']\<rparr>
     ([(''1'', [''Type'' \<mapsto> ''tty'', ''State'' \<mapsto> ''active'', ''IdleHint'' \<mapsto> ''yes''])]
       @ [(''2'', [''Type'' \<mapsto> ''mir'', ''State'' \<mapsto> ''active'', ''IdleHint'' \<mapsto> ''no''])])
     = Inl (KeyError ''type'')
   \<and> logind_check \<lparr>types = [''tty'', ''x11''], states = [''active'']\<rparr>
     ([(''1'', [''Type'' \<mapsto> ''tty'', ''State'' \<mapsto> ''active'', ''IdleHint'' \<mapsto> ''yes''])]
       @ [(''2'', [''Type'' \<mapsto> ''x11'', ''IdleHint'' \<mapsto> ''no''])])
     = Inl (KeyError ''State'')
   \<and> logind_check \<lparr>types = [''tty'', ''x11''], states = [''active'']\<rparr>
     ([(''1'', [''Type'' \<mapsto> ''tty'', ''State'' \<mapsto> ''active'', ''IdleHint'' \<mapsto> ''yes''])]
       @ [(''2'', [''Type'' \<mapsto> ''x11'', ''State'' \<mapsto> ''active''])])
     = Inl (KeyError ''IdleHint'')"
proof -
  let ?p = "\<lparr>types = [''tty'', ''x11''], states = [''active'']\<rparr>"
  let ?pre = "[(''1'', [''Type'' \<mapsto> ''tty'', ''State'' \<mapsto> ''active'', ''IdleHint'' \<mapsto> ''yes''])]"
  let ?a = "[''State'' \<mapsto> ''active'', ''IdleHint'' \<mapsto> ''no'']"
  let ?b = "[''Type'' \<mapsto> ''mir'', ''State'' \<mapsto> ''active'', ''IdleHint'' \<mapsto> ''no'']"
  let ?c = "[''Type'' \<mapsto> ''x11'', ''IdleHint'' \<mapsto> ''no'']"
  let ?d = "[''Type'' \<mapsto> ''x11'', ''State'' \<mapsto> ''active'']"
  have reach: "logind_check ?p ?pre = Inr None"
    by (simp add: getitem_def)
  have ha: "?a ''Type'' = None"
    by simp
  have hb: "?b ''Type'' = Some ''mir'' \<and> ''mir'' \<notin> set (types ?p) \<and> ?b ''type'' = None"
    by simp
  have hc: "?c ''Type'' = Some ''x11'' \<and> ''x11'' \<in> set (types ?p) \<and> ?c ''State'' = None"
    by simp
  have hd: "?d ''Type'' = Some ''x11'' \<and> ''x11'' \<in> set (types ?p) \<and>
            ?d ''State'' = Some ''active'' \<and> ''active'' \<in> set (states ?p) \<and> ?d ''IdleHint'' = None"
    by simp
  have a: "logind_check ?p (?pre @ [(''2'', ?a)]) = Inl (KeyError ''Type'')"
    using logind_check_missing_key [OF reach, of ?a "''2''" "[]"] ha by blast
  have b: "logind_check ?p (?pre @ [(''2'', ?b)]) = Inl (KeyError ''type'')"
    using logind_check_missing_key [OF reach, of ?b "''2''" "[]"] hb by blast
  have c: "logind_check ?p (?pre @ [(''2'', ?c)]) = Inl (KeyError ''State'')"
    using logind_check_missing_key [OF reach, of ?c "''2''" "[]"] hc by blast
  have d: "logind_check ?p (?pre @ [(''2'', ?d)]) = Inl (KeyError ''IdleHint'')"
    using logind_check_missing_key [OF reach, of ?d "''2''" "[]"] hd by blast
  from reach a b c d show ?thesis by blast
qed

subsection \<open>\<open>XIdleTime.create\<close>\<close>




subsection \<open>Session discovery\<close>

lemma list_sessions_sockets_append:
  "list_sessions_sockets env (pre @ post) =
     (case list_sessions_sockets env pre of
        Inl e \<Rightarrow> Inl e
      | Inr found \<Rightarrow>
          (case list_sessions_sockets env post of
             Inl e \<Rightarrow> Inl e
           | Inr later \<Rightarrow> Inr (found @ later)))"
  by (induction pre) (auto split: option.splits sum.splits)

lemma list_sessions_sockets_benign:
  assumes "\<forall>s \<in> set socks.
             py_int env (drop (length ''/tmp/.X11-unix/X'') s) \<noteq> None \<longrightarrow>
             (\<forall>e. socket_owner env s = Inl e \<longrightarrow> e = FileNotFoundError \<or> is_key_error e)"
  shows "list_sessions_sockets env socks =
     Inr (map (\<lambda>s. (the (py_int env (drop (length ''/tmp/.X11-unix/X'') s)),
                     projr (socket_owner env s)))
           (filter (\<lambda>s. py_int env (drop (length ''/tmp/.X11-unix/X'') s) \<noteq> None
                      \<and> \<not> isl (socket_owner env s)) socks))"
  using assms
proof (induction socks)
  case Nil
  then show ?case by simp
next
  case (Cons sock socks)
  from Cons.prems have rest: "list_sessions_sockets env socks =
     Inr (map (\<lambda>s. (the (py_int env (drop (length ''/tmp/.X11-unix/X'') s)),
                     projr (socket_owner env s)))
           (filter (\<lambda>s. py_int env (drop (length ''/tmp/.X11-unix/X'') s) \<noteq> None
                      \<and> \<not> isl (socket_owner env s)) socks))"
    by (intro Cons.IH) simp
  from Cons.prems have here:
    "py_int env (drop (length ''/tmp/.X11-unix/X'') sock) \<noteq> None \<longrightarrow>
     (\<forall>e. socket_owner env sock = Inl e \<longrightarrow> e = FileNotFoundError \<or> is_key_error e)"
    by simp
  show ?case
  proof (cases "py_int env (drop (length ''/tmp/.X11-unix/X'') sock)")
    case None
    then show ?thesis using rest by simp
  next
    case (Some display)
    show ?thesis
    proof (cases "socket_owner env sock")
      case (Inl e)
      with here Some have "e = FileNotFoundError \<or> is_key_error e" by simp
      with Inl Some rest show ?thesis by auto
    next
      case (Inr user)
      with Some rest show ?thesis by simp
    qed
  qed
qed

text \<open>
  C7, as stated, fails: \<open>os.stat\<close> raises an \<open>OSError\<close> that is not
  \<open>FileNotFoundError\<close> for the socket of display 0 (a symbolic link that points to itself
  does this); discovery raises that error, although the claim says that no error is raised
  and although the socket of display 7 has a number that parses and an owner that resolves.
\<close>

theorem list_sessions_sockets_counterexample:
  "py_int
     ((example_env [] (example_helper []))
        \<lparr>stat_uid := (\<lambda>s. if s = ''/tmp/.X11-unix/X0'' then Inl OSError else Inr 1000),
         getpwuid_name := (\<lambda>u. Inr ''alice'')\<rparr>)
     (drop (length ''/tmp/.X11-unix/X'') ''/tmp/.X11-unix/X7'') = Some 7
   \<and> socket_owner
     ((example_env [] (example_helper []))
        \<lparr>stat_uid := (\<lambda>s. if s = ''/tmp/.X11-unix/X0'' then Inl OSError else Inr 1000),
         getpwuid_name := (\<lambda>u. Inr ''alice'')\<rparr>)
     ''/tmp/.X11-unix/X7'' = Inr ''alice''
   \<and> list_sessions_sockets
     ((example_env [] (example_helper []))
        \<lparr>stat_uid := (\<lambda>s. if s = ''/tmp/.X11-unix/X0'' then Inl OSError else Inr 1000),
         getpwuid_name := (\<lambda>u. Inr ''alice'')\<rparr>)
     [''/tmp/.X11-unix/X0'', ''/tmp/.X11-unix/X7'']
     = Inl OSError"
  by (simp add: example_env_def socket_owner_def is_key_error_def
      py_int_def is_ascii_def ascii_int_def strip_space_def is_space_def
      py_nat_def is_digit_def digit_val_def)

text \<open>
  C7, amended. An endpoint whose text after \<open>/tmp/.X11-unix/X\<close> does not parse as an
  integer is skipped, and so is one whose owner lookup raises \<open>FileNotFoundError\<close> or
  \<open>KeyError\<close>. When the lookup raises nothing else at the endpoints whose number parses,
  the socket scan raises nothing and returns, in the order of the listing, exactly the
  endpoints with a number that parses and an owner that resolves, each as the pair of display
  number and user name. When the lookup raises another exception at an endpoint whose number
  parses and which the scan reaches, the scan raises that exception. For the listing
  \<open>X7\<close>, \<open>Xabc\<close>, \<open>X\<close> with a resolvable owner of \<open>X7\<close> the result is display 7 alone.
\<close>

theorem list_sessions_sockets_exact:
  "((\<forall>s \<in> set socks.
        py_int env (drop (length ''/tmp/.X11-unix/X'') s) \<noteq> None \<longrightarrow>
        (\<forall>e. socket_owner env s = Inl e \<longrightarrow> e = FileNotFoundError \<or> is_key_error e)) \<longrightarrow>
     list_sessions_sockets env socks =
       Inr (map (\<lambda>s. (the (py_int env (drop (length ''/tmp/.X11-unix/X'') s)),
                       projr (socket_owner env s)))
             (filter (\<lambda>s. py_int env (drop (length ''/tmp/.X11-unix/X'') s) \<noteq> None
                        \<and> \<not> isl (socket_owner env s)) socks)))
   \<and> (list_sessions_sockets env pre = Inr found \<and>
       py_int env (drop (length ''/tmp/.X11-unix/X'') sock) = Some display \<and>
       socket_owner env sock = Inl e \<and> e \<noteq> FileNotFoundError \<and> \<not> is_key_error e \<longrightarrow>
       list_sessions_sockets env (pre @ sock # rest) = Inl e)
   \<and> (stat_uid env ''/tmp/.X11-unix/X7'' = Inr uid \<and> getpwuid_name env uid = Inr user \<longrightarrow>
       list_sessions_sockets env
         [''/tmp/.X11-unix/X7'', ''/tmp/.X11-unix/Xabc'', ''/tmp/.X11-unix/X''] = Inr [(7, user)])"
proof -
  have a: "(\<forall>s \<in> set socks.
        py_int env (drop (length ''/tmp/.X11-unix/X'') s) \<noteq> None \<longrightarrow>
        (\<forall>e. socket_owner env s = Inl e \<longrightarrow> e = FileNotFoundError \<or> is_key_error e)) \<longrightarrow>
     list_sessions_sockets env socks =
       Inr (map (\<lambda>s. (the (py_int env (drop (length ''/tmp/.X11-unix/X'') s)),
                       projr (socket_owner env s)))
             (filter (\<lambda>s. py_int env (drop (length ''/tmp/.X11-unix/X'') s) \<noteq> None
                        \<and> \<not> isl (socket_owner env s)) socks))"
    using list_sessions_sockets_benign by blast
  have b: "list_sessions_sockets env pre = Inr found \<and>
       py_int env (drop (length ''/tmp/.X11-unix/X'') sock) = Some display \<and>
       socket_owner env sock = Inl e \<and> e \<noteq> FileNotFoundError \<and> \<not> is_key_error e \<longrightarrow>
       list_sessions_sockets env (pre @ sock # rest) = Inl e"
    by (simp add: list_sessions_sockets_append)
  have c: "stat_uid env ''/tmp/.X11-unix/X7'' = Inr uid \<and> getpwuid_name env uid = Inr user \<longrightarrow>
       list_sessions_sockets env
         [''/tmp/.X11-unix/X7'', ''/tmp/.X11-unix/Xabc'', ''/tmp/.X11-unix/X''] = Inr [(7, user)]"
    by (simp add: socket_owner_def py_int_def is_ascii_def ascii_int_def strip_space_def
        is_space_def py_nat_def is_digit_def digit_val_def)
  from a b c show ?thesis by blast
qed

theorem list_sessions_sockets_exact_witness:
  "list_sessions_sockets
     ((example_env [] (example_helper []))
        \<lparr>stat_uid := (\<lambda>s. if s = ''/tmp/.X11-unix/X3'' then Inl FileNotFoundError
                          else if s = ''/tmp/.X11-unix/X5'' then Inr 1001 else Inr 1000),
         getpwuid_name := (\<lambda>u. if u = 1000 then Inr ''alice'' else Inl (KeyError ''uid''))\<rparr>)
     [''/tmp/.X11-unix/X0'', ''/tmp/.X11-unix/Xabc'', ''/tmp/.X11-unix/X3'',
      ''/tmp/.X11-unix/X5'', ''/tmp/.X11-unix/X7'']
     = Inr [(0, ''alice''), (7, ''alice'')]
   \<and> list_sessions_sockets
     ((example_env [] (example_helper []))
        \<lparr>stat_uid := (\<lambda>s. if s = ''/tmp/.X11-unix/X3'' then Inl OSError else Inr 1000),
         getpwuid_name := (\<lambda>u. Inr ''alice'')\<rparr>)
     ([''/tmp/.X11-unix/X0''] @ ''/tmp/.X11-unix/X3'' # [''/tmp/.X11-unix/X7''])
     = Inl OSError
   \<and> list_sessions_sockets
     ((example_env [] (example_helper []))
        \<lparr>stat_uid := (\<lambda>s. Inr 1000), getpwuid_name := (\<lambda>u. Inr ''alice'')\<rparr>)
     [''/tmp/.X11-unix/X7'', ''/tmp/.X11-unix/Xabc'', ''/tmp/.X11-unix/X'']
     = Inr [(7, ''alice'')]"
proof -
  let ?e1 = "(example_env [] (example_helper []))
        \<lparr>stat_uid := (\<lambda>s. if s = ''/tmp/.X11-unix/X3'' then Inl FileNotFoundError
                          else if s = ''/tmp/.X11-unix/X5'' then Inr 1001 else Inr 1000),
         getpwuid_name := (\<lambda>u. if u = 1000 then Inr ''alice'' else Inl (KeyError ''uid''))\<rparr>"
  let ?e2 = "(example_env [] (example_helper []))
        \<lparr>stat_uid := (\<lambda>s. if s = ''/tmp/.X11-unix/X3'' then Inl OSError else Inr 1000),
         getpwuid_name := (\<lambda>u. Inr ''alice'')\<rparr>"
  let ?e3 = "(example_env [] (example_helper []))
        \<lparr>stat_uid := (\<lambda>s. Inr 1000), getpwuid_name := (\<lambda>u. Inr ''alice'')\<rparr>"
  let ?socks = "[''/tmp/.X11-unix/X0'', ''/tmp/.X11-unix/Xabc'', ''/tmp/.X11-unix/X3'',
      ''/tmp/.X11-unix/X5'', ''/tmp/.X11-unix/X7'']"
  note ev = example_env_def socket_owner_def is_key_error_def
      py_int_def is_ascii_def ascii_int_def strip_space_def is_space_def
      py_nat_def is_digit_def digit_val_def
  have benign: "\<forall>s \<in> set ?socks.
        py_int ?e1 (drop (length ''/tmp/.X11-unix/X'') s) \<noteq> None \<longrightarrow>
        (\<forall>e. socket_owner ?e1 s = Inl e \<longrightarrow> e = FileNotFoundError \<or> is_key_error e)"
    by (simp add: ev)
  have result_eq: "map (\<lambda>s. (the (py_int ?e1 (drop (length ''/tmp/.X11-unix/X'') s)),
                       projr (socket_owner ?e1 s)))
             (filter (\<lambda>s. py_int ?e1 (drop (length ''/tmp/.X11-unix/X'') s) \<noteq> None
                        \<and> \<not> isl (socket_owner ?e1 s)) ?socks)
      = [(0, ''alice''), (7, ''alice'')]"
    by (simp add: ev)
  have "list_sessions_sockets ?e1 ?socks =
       Inr (map (\<lambda>s. (the (py_int ?e1 (drop (length ''/tmp/.X11-unix/X'') s)),
                       projr (socket_owner ?e1 s)))
             (filter (\<lambda>s. py_int ?e1 (drop (length ''/tmp/.X11-unix/X'') s) \<noteq> None
                        \<and> \<not> isl (socket_owner ?e1 s)) ?socks))"
    using list_sessions_sockets_exact [of ?socks ?e1] benign by blast
  then have a: "list_sessions_sockets ?e1 ?socks = Inr [(0, ''alice''), (7, ''alice'')]"
    unfolding result_eq .
  have reach: "list_sessions_sockets ?e2 [''/tmp/.X11-unix/X0''] = Inr [(0, ''alice'')] \<and>
       py_int ?e2 (drop (length ''/tmp/.X11-unix/X'') ''/tmp/.X11-unix/X3'') = Some 3 \<and>
       socket_owner ?e2 ''/tmp/.X11-unix/X3'' = Inl OSError \<and>
       OSError \<noteq> FileNotFoundError \<and> \<not> is_key_error OSError"
    by (simp add: ev)
  have b: "list_sessions_sockets ?e2
      ([''/tmp/.X11-unix/X0''] @ ''/tmp/.X11-unix/X3'' # [''/tmp/.X11-unix/X7'']) = Inl OSError"
    using list_sessions_sockets_exact
      [where env = ?e2 and pre = "[''/tmp/.X11-unix/X0'']" and sock = "''/tmp/.X11-unix/X3''"
         and rest = "[''/tmp/.X11-unix/X7'']" and e = OSError and display = 3
         and found = "[(0, ''alice'')]"]
      reach by blast
  have owner: "stat_uid ?e3 ''/tmp/.X11-unix/X7'' = Inr 1000 \<and> getpwuid_name ?e3 1000 = Inr ''alice''"
    by (simp add: ev)
  have c: "list_sessions_sockets ?e3
      [''/tmp/.X11-unix/X7'', ''/tmp/.X11-unix/Xabc'', ''/tmp/.X11-unix/X''] = Inr [(7, ''alice'')]"
    using list_sessions_sockets_exact [where env = ?e3 and uid = 1000 and user = "''alice''"] owner
    by blast
  from a b c show ?thesis by blast
qed

lemma replace_colon_no_colon:
  assumes "CHR '':'' \<notin> set (spec_strip_leading_colon d)"
  shows "replace_colon d = spec_strip_leading_colon d"
proof (cases d)
  case Nil
  then show ?thesis by (simp add: replace_colon_def spec_strip_leading_colon_def)
next
  case (Cons c cs)
  with assms have "CHR '':'' \<notin> set cs"
    by (auto simp: spec_strip_leading_colon_def split: if_splits)
  then have "filter (\<lambda>x. x \<noteq> CHR '':'') cs = cs"
    by (intro filter_True) auto
  with Cons show ?thesis
    by (simp add: replace_colon_def spec_strip_leading_colon_def)
qed

text \<open>
  C8, as stated, fails: the claim parses the display by stripping a leading colon, so the
  display text \<open>1:2\<close> would not parse and the session would be skipped. The code removes every
  colon and keeps the session with display 12.
\<close>

theorem list_sessions_logind_counterexample:
  "spec_parse_display (example_env [] (example_helper [])) ''1:2'' = None \<and>
   list_sessions_logind (example_env [] (example_helper [])) [(''c1'', [''Name'' \<mapsto> ''alice'', ''Display'' \<mapsto> ''1:2''])]
     = [(12, ''alice'')]"
  by (simp add: example_env_def spec_parse_display_def spec_strip_leading_colon_def replace_colon_def
      py_int_def is_ascii_def ascii_int_def strip_space_def is_space_def py_nat_def is_digit_def digit_val_def)

text \<open>
  C8, amended. The logind discovery keeps, in order, exactly the sessions whose dictionary has
  both \<open>Name\<close> and \<open>Display\<close> and whose display text, with every colon removed, parses as an
  integer; the others are skipped and nothing is raised. Where the display text has no colon
  besides a leading one, this is the parse of the specification (strip a leading colon,
  convert), and \<open>:3\<close> gives display 3.
\<close>

theorem list_sessions_logind_exact:
  "list_sessions_logind env ss =
     List.map_filter (\<lambda>(session_id, props).
         case props ''Name'' of
           None \<Rightarrow> None
         | Some user \<Rightarrow>
             (case props ''Display'' of
                None \<Rightarrow> None
              | Some d \<Rightarrow> map_option (\<lambda>display. (display, user)) (py_int env (replace_colon d)))) ss
   \<and> (CHR '':'' \<notin> set (spec_strip_leading_colon d) \<longrightarrow>
        py_int env (replace_colon d) = spec_parse_display env d)
   \<and> list_sessions_logind env [(sid, [''Name'' \<mapsto> user, ''Display'' \<mapsto> '':3''])] = [(3, user)]"
proof -
  have a: "list_sessions_logind env ss =
     List.map_filter (\<lambda>(session_id, props).
         case props ''Name'' of
           None \<Rightarrow> None
         | Some user \<Rightarrow>
             (case props ''Display'' of
                None \<Rightarrow> None
              | Some d \<Rightarrow> map_option (\<lambda>display. (display, user)) (py_int env (replace_colon d)))) ss"
    by (induction ss) (auto simp: List.map_filter_simps split: option.splits)
  have b: "CHR '':'' \<notin> set (spec_strip_leading_colon d) \<longrightarrow>
        py_int env (replace_colon d) = spec_parse_display env d"
    by (simp add: replace_colon_no_colon spec_parse_display_def)
  have c: "list_sessions_logind env [(sid, [''Name'' \<mapsto> user, ''Display'' \<mapsto> '':3''])] = [(3, user)]"
    by (simp add: replace_colon_def py_int_def is_ascii_def ascii_int_def strip_space_def is_space_def
        py_nat_def is_digit_def digit_val_def)
  from a b c show ?thesis by blast
qed

theorem list_sessions_logind_exact_witness:
  "CHR '':'' \<notin> set (spec_strip_leading_colon '':3'')
   \<and> py_int (example_env [] (example_helper [])) (replace_colon '':3'') = spec_parse_display (example_env [] (example_helper [])) '':3''
   \<and> spec_parse_display (example_env [] (example_helper [])) '':3'' = Some 3"
proof -
  have h: "CHR '':'' \<notin> set (spec_strip_leading_colon '':3'')"
    by (simp add: spec_strip_leading_colon_def)
  have e: "py_int (example_env [] (example_helper [])) (replace_colon '':3'') = spec_parse_display (example_env [] (example_helper [])) '':3''"
    using list_sessions_logind_exact [where d = "'':3''" and env = "example_env [] (example_helper [])"] h by blast
  have v: "spec_parse_display (example_env [] (example_helper [])) '':3'' = Some 3"
    by (simp add: example_env_def spec_parse_display_def spec_strip_leading_colon_def
        py_int_def is_ascii_def ascii_int_def strip_space_def is_space_def py_nat_def is_digit_def digit_val_def)
  from h e v show ?thesis by blast
qed

subsection \<open>\<open>XIdleTime.check\<close>: the loop over the sessions\<close>

lemma fst_emit: "fst (emit evs r) = fst r"
  by (simp add: emit_def)

lemma snd_emit: "snd (emit evs r) = evs @ snd r"
  by (simp add: emit_def)

lemma match_user_processes_cases:
  "match_user_processes re names =
     (if \<exists>n \<in> set names. re_match re n then Inl AttributeError else Inr False)"
  by (induction names) (auto simp: str_name_call_def)

lemma is_skip_process_running_not_True: "is_skip_process_running p env user \<noteq> Inr True"
  by (simp add: is_skip_process_running_def match_user_processes_cases)

lemma check_sessions_append_fst:
  "fst (check_sessions p env (pre @ post)) =
     (case fst (check_sessions p env pre) of
        Inr None \<Rightarrow> fst (check_sessions p env post)
      | r \<Rightarrow> r)"
proof (induction pre)
  case Nil
  then show ?case by simp
next
  case (Cons s pre)
  obtain d u where s: "s = (d, u)" by (cases s)
  show ?case using Cons.IH
    by (simp add: s fst_emit split: sum.splits option.splits)
qed

lemma check_sessions_append_snd:
  "snd (check_sessions p env (pre @ post)) =
     snd (check_sessions p env pre) @
     (if fst (check_sessions p env pre) = Inr None then snd (check_sessions p env post) else [])"
proof (induction pre)
  case Nil
  then show ?case by simp
next
  case (Cons s pre)
  obtain d u where s: "s = (d, u)" by (cases s)
  show ?case using Cons.IH
    by (simp add: s fst_emit snd_emit split: sum.splits option.splits)
qed

lemma check_sessions_head_logged:
  "LogChecking d u \<in> set (snd (check_sessions p env ((d, u) # rest)))"
  by (simp add: snd_emit split: sum.splits)

lemma trace_skip_user_match:
  "LogSkipUser u \<in> set (snd (check_sessions p env ss)) \<Longrightarrow> re_match (ignore_users_re p) u"
proof (induction ss)
  case Nil
  then show ?case by simp
next
  case (Cons s ss)
  obtain d v where s: "s = (d, v)" by (cases s)
  from Cons show ?case
    by (auto simp: s snd_emit split: if_splits sum.splits)
qed

lemma trace_checking_skip:
  "LogChecking d u \<in> set (snd (check_sessions p env ss)) \<Longrightarrow> re_match (ignore_users_re p) u
   \<Longrightarrow> LogSkipUser u \<in> set (snd (check_sessions p env ss))"
proof (induction ss)
  case Nil
  then show ?case by simp
next
  case (Cons s ss)
  obtain d' v where s: "s = (d', v)" by (cases s)
  from Cons show ?case
    by (auto simp: s snd_emit split: if_splits sum.splits)
qed

lemma trace_no_helper:
  "re_match (ignore_users_re p) u \<Longrightarrow> CallHelper d u \<notin> set (snd (check_sessions p env ss))"
proof (induction ss)
  case Nil
  then show ?case by simp
next
  case (Cons s ss)
  obtain d' v where s: "s = (d', v)" by (cases s)
  from Cons show ?case
    by (auto simp: s snd_emit split: if_splits sum.splits)
qed

lemma check_sessions_all_idle:
  assumes "\<forall>(d, u) \<in> set ss.
             re_match (ignore_users_re p) u \<or>
             (is_skip_process_running p env u = Inr False \<and>
              (\<exists>t. idle_time env d u = Inr t \<and> of_int (timeout p) \<le> t))"
  shows "fst (check_sessions p env ss) = Inr None"
  using assms
proof (induction ss)
  case Nil
  then show ?case by simp
next
  case (Cons s ss)
  obtain d u where s: "s = (d, u)" by (cases s)
  from Cons.prems have rest: "fst (check_sessions p env ss) = Inr None"
    by (intro Cons.IH) simp
  from Cons.prems have here:
    "re_match (ignore_users_re p) u \<or>
     (is_skip_process_running p env u = Inr False \<and>
      (\<exists>t. idle_time env d u = Inr t \<and> of_int (timeout p) \<le> t))"
    by (simp add: s)
  then show ?case
  proof
    assume "re_match (ignore_users_re p) u"
    then show ?thesis by (simp add: s fst_emit rest)
  next
    assume a: "is_skip_process_running p env u = Inr False \<and>
      (\<exists>t. idle_time env d u = Inr t \<and> of_int (timeout p) \<le> t)"
    then obtain t where t: "idle_time env d u = Inr t" "of_int (timeout p) \<le> t" by blast
    from t(2) have "\<not> t < of_int (timeout p)" by simp
    with a t(1) show ?thesis by (simp add: s fst_emit rest)
  qed
qed

lemma check_sessions_step:
  assumes "fst (check_sessions p env pre) = Inr None"
  shows "fst (check_sessions p env (pre @ s # rest)) = fst (check_sessions p env (s # rest))"
  by (simp add: check_sessions_append_fst assms)

lemma check_sessions_skip_fst:
  assumes "re_match (ignore_users_re p) user"
  shows "fst (check_sessions p env (pre @ (display, user) # rest)) =
         fst (check_sessions p env (pre @ rest))"
proof -
  have "fst (check_sessions p env ((display, user) # rest)) = fst (check_sessions p env rest)"
    using assms by (simp add: fst_emit)
  then show ?thesis
    by (simp only: check_sessions_append_fst)
qed

lemmas example_simps =
  example_probe_def example_env_def example_helper_def example_float_def example_format_def
  example_compile_def compiled_def
  is_skip_process_running_def idle_time_def bytes_strip_def is_bytes_space_def emit_def
  active_reason_def py_int_def is_ascii_def ascii_int_def strip_space_def is_space_def
  py_nat_def is_digit_def digit_val_def str_int_def digit_char_def str_name_call_def

subsection \<open>\<open>XIdleTime.check\<close>: exclusion\<close>

text \<open>
  C1 (the code departs from the claim). The claim: a session whose user runs a process that
  matches \<open>ignore_if_process\<close> is skipped, and the evaluation goes on with the remaining
  sessions. With the pattern \<open>mpv\<close>, user \<open>bob\<close> running \<open>mpv\<close>, and the sessions of
  \<open>bob\<close> (display 0) and of \<open>alice\<close> (display 7, idle for 120 s with a timeout of 300 s),
  the evaluation raises \<open>AttributeError\<close> at \<open>bob\<close>'s session: the helper is called for no
  session and the session of \<open>alice\<close> is never looked at.
\<close>

theorem check_sessions_skip_process_raises:
  "check_sessions (example_probe 300 (literal ''mpv'') RNever)
     (example_env [\<lparr>proc_username = Some ''bob'', proc_name = Some ''mpv''\<rparr>]
        (example_helper [(''bob'', Inr ''400000\<newline>''), (''alice'', Inr ''120000\<newline>'')]))
     [(0, ''bob''), (7, ''alice'')]
   = (Inl AttributeError, [LogChecking 0 ''bob''])"
  by (simp add: example_simps)

text \<open>
  C3, as stated, fails: with \<open>ignore_users\<close> \<open>al\<close> the user name \<open>alice\<close> is not a full
  match of the pattern, and the session would be active (idle for 120 s, timeout 300 s); the
  code skips it, calls no helper and reports inactive.
\<close>

theorem check_sessions_user_counterexample:
  "\<not> re_fullmatch (ignore_users_re (example_probe 300 RNever (literal ''al''))) ''alice''
   \<and> idle_time (example_env [] (example_helper [(''alice'', Inr ''120000\<newline>'')])) 7 ''alice''
       = Inr 120
   \<and> check_sessions (example_probe 300 RNever (literal ''al''))
       (example_env [] (example_helper [(''alice'', Inr ''120000\<newline>'')])) [(7, ''alice'')]
     = (Inr None, [LogChecking 7 ''alice'', LogSkipUser ''alice''])"
  by (simp add: example_simps)

text \<open>
  C3, amended. \<open>ignore_users\<close> is applied with \<open>Pattern.match\<close>, which looks for a match
  at the beginning of the user name and does not ask for the whole name to match.
  A session whose user name the pattern matches in this way is skipped: the evaluation logs
  it and goes on with the sessions after it, and at any place of the list the result is the
  one of the list without this session. A session that the loop reaches is logged as looked
  at; a session looked at is skipped for its user if and only if the pattern matches its user
  name in this way; and the helper is never called for a session of such a user, whatever its
  idle time. A session that the loop reaches, whose user name the pattern does not match in
  this way and whose user runs no process matching \<open>ignore_if_process\<close>, is not skipped:
  the helper is called for it.
\<close>

theorem check_sessions_user_exclusion:
  "(re_match (ignore_users_re p) user \<longrightarrow>
      check_sessions p env ((display, user) # rest) =
        emit [LogChecking display user, LogSkipUser user] (check_sessions p env rest) \<and>
      fst (check_sessions p env (pre @ (display, user) # rest)) =
        fst (check_sessions p env (pre @ rest)))
   \<and> (fst (check_sessions p env pre) = Inr None \<longrightarrow>
      LogChecking display user \<in> set (snd (check_sessions p env (pre @ (display, user) # rest))))
   \<and> (\<forall>d u. LogChecking d u \<in> set (snd (check_sessions p env ss)) \<longrightarrow>
         (LogSkipUser u \<in> set (snd (check_sessions p env ss)) \<longleftrightarrow>
          re_match (ignore_users_re p) u))
   \<and> (\<forall>d u. re_match (ignore_users_re p) u \<longrightarrow>
         CallHelper d u \<notin> set (snd (check_sessions p env ss)))
   \<and> (fst (check_sessions p env pre) = Inr None \<and> \<not> re_match (ignore_users_re p) user \<and>
       is_skip_process_running p env user = Inr False \<longrightarrow>
       CallHelper display user \<in> set (snd (check_sessions p env (pre @ (display, user) # rest))) \<and>
       LogSkipUser user \<notin> set (snd (check_sessions p env [(display, user)])))"
proof -
  have skip: "re_match (ignore_users_re p) user \<longrightarrow>
      check_sessions p env ((display, user) # rest) =
        emit [LogChecking display user, LogSkipUser user] (check_sessions p env rest) \<and>
      fst (check_sessions p env (pre @ (display, user) # rest)) =
        fst (check_sessions p env (pre @ rest))"
    using check_sessions_skip_fst [of p user env pre display rest] by simp
  have a: "fst (check_sessions p env pre) = Inr None \<longrightarrow>
      LogChecking display user \<in> set (snd (check_sessions p env (pre @ (display, user) # rest)))"
    using check_sessions_head_logged [of display user p env rest]
    by (simp add: check_sessions_append_snd)
  have b: "\<forall>d u. LogChecking d u \<in> set (snd (check_sessions p env ss)) \<longrightarrow>
         (LogSkipUser u \<in> set (snd (check_sessions p env ss)) \<longleftrightarrow>
          re_match (ignore_users_re p) u)"
    using trace_skip_user_match trace_checking_skip by blast
  have c: "\<forall>d u. re_match (ignore_users_re p) u \<longrightarrow>
         CallHelper d u \<notin> set (snd (check_sessions p env ss))"
    using trace_no_helper by blast
  have d: "fst (check_sessions p env pre) = Inr None \<and> \<not> re_match (ignore_users_re p) user \<and>
       is_skip_process_running p env user = Inr False \<longrightarrow>
       CallHelper display user \<in> set (snd (check_sessions p env (pre @ (display, user) # rest))) \<and>
       LogSkipUser user \<notin> set (snd (check_sessions p env [(display, user)]))"
  proof
    assume h: "fst (check_sessions p env pre) = Inr None \<and> \<not> re_match (ignore_users_re p) user \<and>
       is_skip_process_running p env user = Inr False"
    then have "CallHelper display user \<in> set (snd (check_sessions p env ((display, user) # rest)))"
      by (simp add: snd_emit split: sum.splits)
    with h have probed:
      "CallHelper display user \<in> set (snd (check_sessions p env (pre @ (display, user) # rest)))"
      by (simp add: check_sessions_append_snd)
    from h have "LogSkipUser user \<notin> set (snd (check_sessions p env [(display, user)]))"
      using trace_skip_user_match by blast
    with probed show "CallHelper display user \<in>
        set (snd (check_sessions p env (pre @ (display, user) # rest))) \<and>
       LogSkipUser user \<notin> set (snd (check_sessions p env [(display, user)]))"
      by blast
  qed
  from skip a b c d show ?thesis by blast
qed

theorem check_sessions_user_exclusion_witness:
  "fst (check_sessions (example_probe 300 RNever (literal ''al''))
         (example_env [] (example_helper [(''bob'', Inr ''400000\<newline>''), (''alice'', Inr ''120000\<newline>''),
            (''carol'', Inr ''60000\<newline>'')]))
         [(0, ''bob'')]) = Inr None
   \<and> re_match (ignore_users_re (example_probe 300 RNever (literal ''al''))) ''alice''
   \<and> fst (check_sessions (example_probe 300 RNever (literal ''al''))
         (example_env [] (example_helper [(''bob'', Inr ''400000\<newline>''), (''alice'', Inr ''120000\<newline>''),
            (''carol'', Inr ''60000\<newline>'')]))
         ([(0, ''bob'')] @ (7, ''alice'') # [(8, ''carol'')]))
     = fst (check_sessions (example_probe 300 RNever (literal ''al''))
         (example_env [] (example_helper [(''bob'', Inr ''400000\<newline>''), (''alice'', Inr ''120000\<newline>''),
            (''carol'', Inr ''60000\<newline>'')]))
         ([(0, ''bob'')] @ [(8, ''carol'')]))
   \<and> fst (check_sessions (example_probe 300 RNever (literal ''al''))
         (example_env [] (example_helper [(''bob'', Inr ''400000\<newline>''), (''alice'', Inr ''120000\<newline>''),
            (''carol'', Inr ''60000\<newline>'')]))
         ([(0, ''bob'')] @ [(8, ''carol'')]))
     = Inr (Some ''X session 8 of user carol has idle time 60.0 < threshold 300'')
   \<and> LogChecking 7 ''alice'' \<in> set (snd (check_sessions (example_probe 300 RNever (literal ''al''))
         (example_env [] (example_helper [(''bob'', Inr ''400000\<newline>''), (''alice'', Inr ''120000\<newline>''),
            (''carol'', Inr ''60000\<newline>'')]))
         ([(0, ''bob'')] @ (7, ''alice'') # [(8, ''carol'')])))
   \<and> LogSkipUser ''alice'' \<in> set (snd (check_sessions (example_probe 300 RNever (literal ''al''))
         (example_env [] (example_helper [(''bob'', Inr ''400000\<newline>''), (''alice'', Inr ''120000\<newline>''),
            (''carol'', Inr ''60000\<newline>'')]))
         ([(0, ''bob'')] @ (7, ''alice'') # [(8, ''carol'')])))
   \<and> CallHelper 7 ''alice'' \<notin> set (snd (check_sessions (example_probe 300 RNever (literal ''al''))
         (example_env [] (example_helper [(''bob'', Inr ''400000\<newline>''), (''alice'', Inr ''120000\<newline>''),
            (''carol'', Inr ''60000\<newline>'')]))
         ([(0, ''bob'')] @ (7, ''alice'') # [(8, ''carol'')])))
   \<and> CallHelper 8 ''carol'' \<in> set (snd (check_sessions (example_probe 300 RNever (literal ''al''))
         (example_env [] (example_helper [(''bob'', Inr ''400000\<newline>''), (''alice'', Inr ''120000\<newline>''),
            (''carol'', Inr ''60000\<newline>'')]))
         ([(0, ''bob'')] @ (8, ''carol'') # [])))"
proof -
  let ?p = "example_probe 300 RNever (literal ''al'')"
  let ?env = "example_env [] (example_helper [(''bob'', Inr ''400000\<newline>''), (''alice'', Inr ''120000\<newline>''),
            (''carol'', Inr ''60000\<newline>'')])"
  let ?pre = "[(0 :: int, ''bob'')]"
  let ?rest = "[(8 :: int, ''carol'')]"
  let ?ss = "?pre @ (7, ''alice'') # ?rest"
  have reach: "fst (check_sessions ?p ?env ?pre) = Inr None"
    by (simp add: example_simps)
  have m: "re_match (ignore_users_re ?p) ''alice''"
    by (simp add: example_probe_def compiled_def)
  have without: "fst (check_sessions ?p ?env (?pre @ ?rest))
      = Inr (Some ''X session 8 of user carol has idle time 60.0 < threshold 300'')"
    by (simp add: example_simps)
  note inst = check_sessions_user_exclusion
    [where p = ?p and env = ?env and pre = ?pre and display = 7 and user = "''alice''"
       and rest = ?rest and ss = ?ss]
  from inst m have same: "fst (check_sessions ?p ?env ?ss) = fst (check_sessions ?p ?env (?pre @ ?rest))"
    by blast
  from inst reach have l: "LogChecking 7 ''alice'' \<in> set (snd (check_sessions ?p ?env ?ss))"
    by blast
  from inst l m have s: "LogSkipUser ''alice'' \<in> set (snd (check_sessions ?p ?env ?ss))"
    by blast
  from inst m have h: "CallHelper 7 ''alice'' \<notin> set (snd (check_sessions ?p ?env ?ss))"
    by blast
  have n: "fst (check_sessions ?p ?env ?pre) = Inr None \<and>
      \<not> re_match (ignore_users_re ?p) ''carol'' \<and>
      is_skip_process_running ?p ?env ''carol'' = Inr False"
    by (simp add: example_simps)
  from check_sessions_user_exclusion
    [where p = ?p and env = ?env and pre = ?pre and display = 8 and user = "''carol''"
       and rest = "[]"] n
  have q: "CallHelper 8 ''carol'' \<in> set (snd (check_sessions ?p ?env (?pre @ (8, ''carol'') # [])))"
    by blast
  from reach m same without l s h q show ?thesis by blast
qed

subsection \<open>\<open>XIdleTime.check\<close>: idle time against the timeout\<close>

text \<open>
  C4, as stated, fails: the session of \<open>alice\<close> is not excluded and its measured idle time,
  120 s, is below the timeout of 300 s, but the helper fails for the session of \<open>bob\<close> that
  comes first, and the evaluation raises \<open>TemporaryCheckError\<close> instead of reporting active.
\<close>

theorem check_sessions_active_counterexample:
  "\<not> re_match (ignore_users_re (example_probe 300 RNever RNever)) ''alice''
   \<and> is_skip_process_running (example_probe 300 RNever RNever)
        (example_env [] (example_helper
           [(''bob'', Inl CalledProcessError), (''alice'', Inr ''120000\<newline>'')])) ''alice''
      = Inr False
   \<and> idle_time (example_env [] (example_helper
           [(''bob'', Inl CalledProcessError), (''alice'', Inr ''120000\<newline>'')])) 7 ''alice''
      = Inr 120
   \<and> (120 :: rat) < of_int (timeout (example_probe 300 RNever RNever))
   \<and> fst (check_sessions (example_probe 300 RNever RNever)
        (example_env [] (example_helper
           [(''bob'', Inl CalledProcessError), (''alice'', Inr ''120000\<newline>'')]))
        [(0, ''bob''), (7, ''alice'')])
      = Inl TemporaryCheckError"
  by (simp add: example_simps)

text \<open>
  C4, amended. Take an evaluation in which every session before a given one is excluded by
  its user, or has no process matching \<open>ignore_if_process\<close> and a measured idle time that is
  at least the timeout. If the given session is not excluded by its user, has no matching
  process, and its measured idle time is strictly below the timeout, the result is active,
  with the reason \<open>X session D of user U has idle time T < threshold TIMEOUT\<close>, and the
  evaluation returns there: result and trace are those of the list that ends with this
  session. If every session is as the ones before, the result is
  inactive; so it is for no session at all. (What happens when a process matches
  \<open>ignore_if_process\<close> is left out here.)
\<close>

theorem check_sessions_first_active:
  "((\<forall>(d, u) \<in> set pre.
        re_match (ignore_users_re p) u \<or>
        (is_skip_process_running p env u = Inr False \<and>
         (\<exists>t'. idle_time env d u = Inr t' \<and> of_int (timeout p) \<le> t'))) \<and>
     \<not> re_match (ignore_users_re p) user \<and>
     is_skip_process_running p env user = Inr False \<and>
     idle_time env display user = Inr t \<and> t < of_int (timeout p) \<longrightarrow>
     fst (check_sessions p env (pre @ (display, user) # rest)) =
       Inr (Some (''X session '' @ str_int display @ '' of user '' @ user @
                  '' has idle time '' @ format_float env t @
                  '' < threshold '' @ str_int (timeout p))) \<and>
     check_sessions p env (pre @ (display, user) # rest) =
       check_sessions p env (pre @ [(display, user)]))
   \<and> ((\<forall>(d, u) \<in> set ss.
        re_match (ignore_users_re p) u \<or>
        (is_skip_process_running p env u = Inr False \<and>
         (\<exists>t'. idle_time env d u = Inr t' \<and> of_int (timeout p) \<le> t'))) \<longrightarrow>
       fst (check_sessions p env ss) = Inr None)
   \<and> fst (check_sessions p env []) = Inr None"
proof -
  have active: "fst (check_sessions p env (pre @ (display, user) # rest)) =
       Inr (Some (''X session '' @ str_int display @ '' of user '' @ user @
                  '' has idle time '' @ format_float env t @
                  '' < threshold '' @ str_int (timeout p))) \<and>
     check_sessions p env (pre @ (display, user) # rest) =
       check_sessions p env (pre @ [(display, user)])"
    if before: "\<forall>(d, u) \<in> set pre.
        re_match (ignore_users_re p) u \<or>
        (is_skip_process_running p env u = Inr False \<and>
         (\<exists>t'. idle_time env d u = Inr t' \<and> of_int (timeout p) \<le> t'))"
      and here: "\<not> re_match (ignore_users_re p) user"
        "is_skip_process_running p env user = Inr False"
        "idle_time env display user = Inr t" "t < of_int (timeout p)"
  proof -
    have head: "check_sessions p env ((display, user) # tl) =
        (Inr (Some (active_reason env display user t (timeout p))),
         [LogChecking display user, CallHelper display user])" for tl
      using here by simp
    have pre: "fst (check_sessions p env pre) = Inr None"
      using before by (rule check_sessions_all_idle)
    then have "fst (check_sessions p env (pre @ (display, user) # rest)) =
        fst (check_sessions p env ((display, user) # rest))"
      by (rule check_sessions_step)
    also have "\<dots> = Inr (Some (active_reason env display user t (timeout p)))"
      using here by simp
    finally have result: "fst (check_sessions p env (pre @ (display, user) # rest)) =
       Inr (Some (''X session '' @ str_int display @ '' of user '' @ user @
                  '' has idle time '' @ format_float env t @
                  '' < threshold '' @ str_int (timeout p)))"
      by (simp add: active_reason_def)
    have h1: "check_sessions p env ((display, user) # rest) =
        (Inr (Some (active_reason env display user t (timeout p))),
         [LogChecking display user, CallHelper display user])"
      by (rule head)
    have h2: "check_sessions p env [(display, user)] =
        (Inr (Some (active_reason env display user t (timeout p))),
         [LogChecking display user, CallHelper display user])"
      by (rule head)
    have "fst (check_sessions p env (pre @ (display, user) # rest)) =
        fst (check_sessions p env (pre @ [(display, user)]))"
      by (simp only: check_sessions_append_fst pre h1 h2)
    moreover have "snd (check_sessions p env (pre @ (display, user) # rest)) =
        snd (check_sessions p env (pre @ [(display, user)]))"
      by (simp only: check_sessions_append_snd pre h1 h2)
    ultimately have "check_sessions p env (pre @ (display, user) # rest) =
        check_sessions p env (pre @ [(display, user)])"
      by (rule prod_eqI)
    with result show ?thesis by blast
  qed
  have idle: "fst (check_sessions p env ss) = Inr None"
    if "\<forall>(d, u) \<in> set ss.
        re_match (ignore_users_re p) u \<or>
        (is_skip_process_running p env u = Inr False \<and>
         (\<exists>t'. idle_time env d u = Inr t' \<and> of_int (timeout p) \<le> t'))"
    using that by (rule check_sessions_all_idle)
  have none: "fst (check_sessions p env []) = Inr None"
    by simp
  from active idle none show ?thesis by blast
qed

theorem check_sessions_first_active_witness:
  "fst (check_sessions (example_probe 300 RNever (literal ''carol''))
         (example_env [] (example_helper
            [(''bob'', Inr ''400000\<newline>''), (''alice'', Inr ''120000\<newline>'')]))
         ([(0, ''bob''), (1, ''carol'')] @ (7, ''alice'') # [(8, ''dave'')]))
     = Inr (Some ''X session 7 of user alice has idle time 120.0 < threshold 300'')
   \<and> fst (check_sessions (example_probe 300 RNever (literal ''carol''))
         (example_env [] (example_helper
            [(''bob'', Inr ''400000\<newline>''), (''alice'', Inr ''120000\<newline>'')]))
         [(0, ''bob''), (1, ''carol'')])
     = Inr None"
proof -
  let ?p = "example_probe 300 RNever (literal ''carol'')"
  let ?env = "example_env [] (example_helper
            [(''bob'', Inr ''400000\<newline>''), (''alice'', Inr ''120000\<newline>'')])"
  let ?pre = "[(0 :: int, ''bob''), (1, ''carol'')]"
  have before: "\<forall>(d, u) \<in> set ?pre.
        re_match (ignore_users_re ?p) u \<or>
        (is_skip_process_running ?p ?env u = Inr False \<and>
         (\<exists>t'. idle_time ?env d u = Inr t' \<and> of_int (timeout ?p) \<le> t'))"
    by (simp add: example_simps)
  have here: "\<not> re_match (ignore_users_re ?p) ''alice'' \<and>
     is_skip_process_running ?p ?env ''alice'' = Inr False \<and>
     idle_time ?env 7 ''alice'' = Inr 120 \<and> (120 :: rat) < of_int (timeout ?p)"
    by (simp add: example_simps)
  have reason_eq: "''X session '' @ str_int 7 @ '' of user '' @ ''alice'' @
        '' has idle time '' @ format_float ?env 120 @ '' < threshold '' @ str_int (timeout ?p)
      = ''X session 7 of user alice has idle time 120.0 < threshold 300''"
    by (simp add: example_simps)
  note inst = check_sessions_first_active
    [of ?pre ?p ?env "''alice''" 7 120 "[(8, ''dave'')]" ?pre]
  from inst before here
  have "fst (check_sessions ?p ?env (?pre @ (7, ''alice'') # [(8, ''dave'')])) =
       Inr (Some (''X session '' @ str_int 7 @ '' of user '' @ ''alice'' @
                  '' has idle time '' @ format_float ?env 120 @
                  '' < threshold '' @ str_int (timeout ?p)))"
    by blast
  then have a: "fst (check_sessions ?p ?env (?pre @ (7, ''alice'') # [(8, ''dave'')])) =
       Inr (Some ''X session 7 of user alice has idle time 120.0 < threshold 300'')"
    unfolding reason_eq .
  from inst before have b: "fst (check_sessions ?p ?env ?pre) = Inr None"
    by blast
  from a b show ?thesis by blast
qed

text \<open>
  C5, as stated, fails: when the helper cannot be started (\<open>subprocess.check_output\<close> raises
  \<open>OSError\<close>, as it does when \<open>sudo\<close> is not installed), the evaluation raises that
  \<open>OSError\<close>, not \<open>TemporaryCheckError\<close>.
\<close>

theorem check_sessions_helper_counterexample:
  "fst (check_sessions (example_probe 300 RNever RNever)
         (example_env [] (example_helper [(''alice'', Inl OSError)])) [(7, ''alice'')])
     = Inl OSError
   \<and> OSError \<noteq> TemporaryCheckError"
  by (simp add: example_simps)

text \<open>
  C5, amended. For a session that the loop reaches and that is not excluded: when the helper
  exits with a non-zero status (\<open>CalledProcessError\<close>), or when \<open>float\<close> rejects its output
  (\<open>ValueError\<close>), the whole evaluation raises \<open>TemporaryCheckError\<close>, whatever sessions
  follow; when the output parses, the idle time is the parsed number of milliseconds divided
  by 1000; any other exception of the helper call passes through unchanged.
\<close>

theorem check_sessions_helper_failure:
  assumes reach: "fst (check_sessions p env pre) = Inr None"
    and user: "\<not> re_match (ignore_users_re p) user"
    and process: "is_skip_process_running p env user = Inr False"
  shows "(check_output env display user = Inl CalledProcessError \<longrightarrow>
            fst (check_sessions p env (pre @ (display, user) # rest)) = Inl TemporaryCheckError)
       \<and> (\<forall>out. check_output env display user = Inr out \<and>
              py_float env (bytes_strip out) = None \<longrightarrow>
            fst (check_sessions p env (pre @ (display, user) # rest)) = Inl TemporaryCheckError)
       \<and> (\<forall>out ms. check_output env display user = Inr out \<and>
              py_float env (bytes_strip out) = Some ms \<longrightarrow>
            idle_time env display user = Inr (ms / 1000))
       \<and> (\<forall>e. check_output env display user = Inl e \<and>
              e \<noteq> CalledProcessError \<and> e \<noteq> ValueError \<longrightarrow>
            fst (check_sessions p env (pre @ (display, user) # rest)) = Inl e)"
proof -
  have step: "fst (check_sessions p env (pre @ (display, user) # rest)) =
      fst (check_sessions p env ((display, user) # rest))"
    using reach by (rule check_sessions_step)
  have head: "fst (check_sessions p env ((display, user) # rest)) = Inl e"
    if "idle_time env display user = Inl e" for e
    using that user process by simp
  have a: "check_output env display user = Inl CalledProcessError \<longrightarrow>
      fst (check_sessions p env (pre @ (display, user) # rest)) = Inl TemporaryCheckError"
  proof
    assume "check_output env display user = Inl CalledProcessError"
    then have "idle_time env display user = Inl TemporaryCheckError"
      by (simp add: idle_time_def)
    then show "fst (check_sessions p env (pre @ (display, user) # rest)) = Inl TemporaryCheckError"
      unfolding step by (rule head)
  qed
  have b: "\<forall>out. check_output env display user = Inr out \<and>
        py_float env (bytes_strip out) = None \<longrightarrow>
      fst (check_sessions p env (pre @ (display, user) # rest)) = Inl TemporaryCheckError"
  proof (intro allI impI)
    fix out
    assume "check_output env display user = Inr out \<and> py_float env (bytes_strip out) = None"
    then have "idle_time env display user = Inl TemporaryCheckError"
      by (simp add: idle_time_def)
    then show "fst (check_sessions p env (pre @ (display, user) # rest)) = Inl TemporaryCheckError"
      unfolding step by (rule head)
  qed
  have c: "\<forall>out ms. check_output env display user = Inr out \<and>
        py_float env (bytes_strip out) = Some ms \<longrightarrow>
      idle_time env display user = Inr (ms / 1000)"
    by (simp add: idle_time_def)
  have d: "\<forall>e. check_output env display user = Inl e \<and>
        e \<noteq> CalledProcessError \<and> e \<noteq> ValueError \<longrightarrow>
      fst (check_sessions p env (pre @ (display, user) # rest)) = Inl e"
  proof (intro allI impI)
    fix e
    assume "check_output env display user = Inl e \<and> e \<noteq> CalledProcessError \<and> e \<noteq> ValueError"
    then have "idle_time env display user = Inl e"
      by (simp add: idle_time_def)
    then show "fst (check_sessions p env (pre @ (display, user) # rest)) = Inl e"
      unfolding step by (rule head)
  qed
  from a b c d show ?thesis by blast
qed

theorem check_sessions_helper_failure_witness:
  "fst (check_sessions (example_probe 300 RNever RNever)
         (example_env [] (example_helper
            [(''bob'', Inr ''400000\<newline>''), (''alice'', Inl CalledProcessError),
             (''carol'', Inr ''soon''), (''dave'', Inr '' 120000\<newline>''), (''erin'', Inl OSError)]))
         [(0, ''bob'')]) = Inr None
   \<and> fst (check_sessions (example_probe 300 RNever RNever)
         (example_env [] (example_helper
            [(''bob'', Inr ''400000\<newline>''), (''alice'', Inl CalledProcessError),
             (''carol'', Inr ''soon''), (''dave'', Inr '' 120000\<newline>''), (''erin'', Inl OSError)]))
         ([(0, ''bob'')] @ (7, ''alice'') # [(9, ''dave'')])) = Inl TemporaryCheckError
   \<and> fst (check_sessions (example_probe 300 RNever RNever)
         (example_env [] (example_helper
            [(''bob'', Inr ''400000\<newline>''), (''alice'', Inl CalledProcessError),
             (''carol'', Inr ''soon''), (''dave'', Inr '' 120000\<newline>''), (''erin'', Inl OSError)]))
         ([(0, ''bob'')] @ (8, ''carol'') # [(9, ''dave'')])) = Inl TemporaryCheckError
   \<and> idle_time
         (example_env [] (example_helper
            [(''bob'', Inr ''400000\<newline>''), (''alice'', Inl CalledProcessError),
             (''carol'', Inr ''soon''), (''dave'', Inr '' 120000\<newline>''), (''erin'', Inl OSError)]))
         9 ''dave'' = Inr (120000 / 1000)
   \<and> fst (check_sessions (example_probe 300 RNever RNever)
         (example_env [] (example_helper
            [(''bob'', Inr ''400000\<newline>''), (''alice'', Inl CalledProcessError),
             (''carol'', Inr ''soon''), (''dave'', Inr '' 120000\<newline>''), (''erin'', Inl OSError)]))
         ([(0, ''bob'')] @ (10, ''erin'') # [(9, ''dave'')])) = Inl OSError"
proof -
  let ?p = "example_probe 300 RNever RNever"
  let ?env = "example_env [] (example_helper
            [(''bob'', Inr ''400000\<newline>''), (''alice'', Inl CalledProcessError),
             (''carol'', Inr ''soon''), (''dave'', Inr '' 120000\<newline>''), (''erin'', Inl OSError)])"
  let ?pre = "[(0 :: int, ''bob'')]"
  let ?rest = "[(9 :: int, ''dave'')]"
  have reach: "fst (check_sessions ?p ?env ?pre) = Inr None"
    by (simp add: example_simps)
  have user: "\<not> re_match (ignore_users_re ?p) u" for u
    by (simp add: example_probe_def compiled_def regex_match_RNever)
  have process: "is_skip_process_running ?p ?env u = Inr False" for u
    by (simp add: example_simps)
  have ha: "check_output ?env 7 ''alice'' = Inl CalledProcessError"
    by (simp add: example_simps)
  have hb: "check_output ?env 8 ''carol'' = Inr ''soon'' \<and>
      py_float ?env (bytes_strip ''soon'') = None"
    by (simp add: example_simps)
  have hc: "check_output ?env 9 ''dave'' = Inr '' 120000\<newline>'' \<and>
      py_float ?env (bytes_strip '' 120000\<newline>'') = Some 120000"
    by (simp add: example_simps)
  have hd: "check_output ?env 10 ''erin'' = Inl OSError \<and>
      OSError \<noteq> CalledProcessError \<and> OSError \<noteq> ValueError"
    by (simp add: example_simps)
  have a: "fst (check_sessions ?p ?env (?pre @ (7, ''alice'') # ?rest)) = Inl TemporaryCheckError"
    using check_sessions_helper_failure
        [where user = "''alice''" and display = 7 and rest = ?rest, OF reach user process] ha by blast
  have b: "fst (check_sessions ?p ?env (?pre @ (8, ''carol'') # ?rest)) = Inl TemporaryCheckError"
    using check_sessions_helper_failure
        [where user = "''carol''" and display = 8 and rest = ?rest, OF reach user process] hb by blast
  have c: "idle_time ?env 9 ''dave'' = Inr (120000 / 1000)"
    using check_sessions_helper_failure
        [where user = "''dave''" and display = 9 and rest = ?rest, OF reach user process] hc by blast
  have d: "fst (check_sessions ?p ?env (?pre @ (10, ''erin'') # ?rest)) = Inl OSError"
    using check_sessions_helper_failure
        [where user = "''erin''" and display = 10 and rest = ?rest, OF reach user process] hd by blast
  from reach a b c d show ?thesis by blast
qed

subsection \<open>\<open>NetworkBandwidth.check\<close>\<close>

lemma network_bandwidth_check_keeps_state:
  "snd (network_bandwidth_check fmt self new_values new_time) = self"
  by (simp add: network_bandwidth_check_def)

text \<open>
  C2 (the code departs from the claim). The claim: the previous counters and the previous
  time are replaced at each evaluation, so that two evaluations in a row between which the
  counters did not change agree on inactive. The probe is built at time 0 with both counters
  of \<open>eth0\<close> at 0 and thresholds of 100 byte/s. At time 1 the interface has sent 1000 bytes:
  the first evaluation is active and leaves the probe as it was. At time 2 the counters are
  the same as at time 1: the second evaluation compares them with the counters of the
  construction again, finds 500 byte/s and is active too.
\<close>

theorem network_bandwidth_check_stale_state:
  "network_bandwidth_check example_format
     (network_bandwidth_init [''eth0''] 100 100
        [''eth0'' \<mapsto> \<lparr>bytes_sent = 0, bytes_recv = 0\<rparr>] 0)
     [''eth0'' \<mapsto> \<lparr>bytes_sent = 1000, bytes_recv = 0\<rparr>] 1
   = (Inr (Some ''Interface eth0 sending rate 1000.0 byte/s higher than threshold 100.0''),
      network_bandwidth_init [''eth0''] 100 100
        [''eth0'' \<mapsto> \<lparr>bytes_sent = 0, bytes_recv = 0\<rparr>] 0)
   \<and> network_bandwidth_check example_format
       (snd (network_bandwidth_check example_format
          (network_bandwidth_init [''eth0''] 100 100
             [''eth0'' \<mapsto> \<lparr>bytes_sent = 0, bytes_recv = 0\<rparr>] 0)
          [''eth0'' \<mapsto> \<lparr>bytes_sent = 1000, bytes_recv = 0\<rparr>] 1))
       [''eth0'' \<mapsto> \<lparr>bytes_sent = 1000, bytes_recv = 0\<rparr>] 2
   = (Inr (Some ''Interface eth0 sending rate 500.0 byte/s higher than threshold 100.0''),
      network_bandwidth_init [''eth0''] 100 100
        [''eth0'' \<mapsto> \<lparr>bytes_sent = 0, bytes_recv = 0\<rparr>] 0)"
  by (simp add: network_bandwidth_check_def network_bandwidth_init_def example_format_def
      str_int_def digit_char_def)

subsection \<open>The scenarios of the specification, end to end\<close>

text \<open>
  A probe with the socket discovery and a timeout of 300 s; one socket, display 7, owned by
  \<open>alice\<close>, who runs no excluded process. With a measured idle time of 120 s the result is
  active and the reason names 7, \<open>alice\<close>, 120 and 300; with 400 s it is inactive.
\<close>

lemma xidletime_check_scenario_active:
  "fst (xidletime_check (example_probe 300 RNever RNever)
         ((example_env [] (example_helper [(''alice'', Inr ''120000\<newline>'')]))
            \<lparr>glob_sockets := [''/tmp/.X11-unix/X7''],
             stat_uid := (\<lambda>s. Inr 1000),
             getpwuid_name := (\<lambda>u. if u = 1000 then Inr ''alice'' else Inl (KeyError ''uid''))\<rparr>))
   = Inr (Some ''X session 7 of user alice has idle time 120.0 < threshold 300'')"
  by (simp add: xidletime_check_def provided_sessions_def socket_owner_def example_simps)

lemma xidletime_check_scenario_idle:
  "fst (xidletime_check (example_probe 300 RNever RNever)
         ((example_env [] (example_helper [(''alice'', Inr ''400000\<newline>'')]))
            \<lparr>glob_sockets := [''/tmp/.X11-unix/X7''],
             stat_uid := (\<lambda>s. Inr 1000),
             getpwuid_name := (\<lambda>u. if u = 1000 then Inr ''alice'' else Inl (KeyError ''uid''))\<rparr>))
   = Inr None"
  by (simp add: xidletime_check_def provided_sessions_def socket_owner_def example_simps)

end
